theory Spec2Isabelle
  imports Main "HOL-Library.Word"
begin

section \<open>Port-forward sessions of pkg/k8s/portforward.go\<close>

text \<open>
  A shallow embedding of \<^verbatim>\<open>pkg/k8s/portforward.go\<close>. The package talks to three
  collaborators that live outside it: the cluster API client (pod list, request builder),
  the operating system's network stack (\<^verbatim>\<open>net.Listen\<close>) and client-go's SPDY
  port forwarder. What a collaborator answers is an input of the model; what the package
  does with the answer is translated from the code.
\<close>

subsection \<open>Errors and panics\<close>

text \<open>
  Every error the package makes itself comes from \<^verbatim>\<open>fmt.Errorf\<close> with a format of
  plain \<^verbatim>\<open>%s\<close> verbs, so it is a message and nothing more: \<open>Errorf\<close>. An error handed
  back by a collaborator is passed on unchanged: \<open>Foreign\<close>. A run-time panic of the Go
  runtime is a value of its own type.
\<close>

datatype error = Errorf string | Foreign string

datatype panic = Panic string

subsection \<open>Formatting\<close>

text \<open>
  The verb \<^verbatim>\<open>%d\<close> of package fmt on an \<^verbatim>\<open>int\<close>: decimal digits, most significant
  first, with a minus sign in front of a negative number. The verb \<^verbatim>\<open>%s\<close> on a string
  copies it. A call of \<^verbatim>\<open>Sprintf\<close> or \<^verbatim>\<open>Errorf\<close> with a constant format is written
  as the concatenation of its pieces.
\<close>

definition digit_char :: "nat \<Rightarrow> char" where
  "digit_char d =
     (if d = 0 then CHR ''0'' else if d = 1 then CHR ''1'' else if d = 2 then CHR ''2''
      else if d = 3 then CHR ''3'' else if d = 4 then CHR ''4'' else if d = 5 then CHR ''5''
      else if d = 6 then CHR ''6'' else if d = 7 then CHR ''7'' else if d = 8 then CHR ''8''
      else CHR ''9'')"

fun fmt_nat :: "nat \<Rightarrow> string" where
  "fmt_nat n = (if n < 10 then [digit_char n] else fmt_nat (n div 10) @ [digit_char (n mod 10)])"

declare fmt_nat.simps [simp del]

definition fmt_d :: "int \<Rightarrow> string" where
  "fmt_d i = (if i < 0 then CHR ''-'' # fmt_nat (nat (- i)) else fmt_nat (nat i))"

text \<open>Reading a decimal numeral back, to say what "in decimal" means.\<close>

definition digit_val :: "char \<Rightarrow> nat" where
  "digit_val c = of_char c - 48"

definition read_nat :: "string \<Rightarrow> nat" where
  "read_nat s = foldl (\<lambda>a c. 10 * a + digit_val c) 0 s"

definition read_int :: "string \<Rightarrow> int" where
  "read_int s = (case s of [] \<Rightarrow> 0
                 | c # r \<Rightarrow> if c = CHR ''-'' then - int (read_nat r) else int (read_nat s))"

text \<open>\<^verbatim>\<open>strings.HasPrefix(s, prefix)\<close>:
  \<^verbatim>\<open>len(s) >= len(prefix) && s[:len(prefix)] == prefix\<close>.\<close>

definition HasPrefix :: "string \<Rightarrow> string \<Rightarrow> bool" where
  "HasPrefix s pre = (length pre \<le> length s \<and> take (length pre) s = pre)"

subsection \<open>The cluster objects the package reads\<close>

text \<open>
  Of \<^verbatim>\<open>corev1.Pod\<close>, \<^verbatim>\<open>corev1.Container\<close> and \<^verbatim>\<open>corev1.ContainerPort\<close> only
  the fields the package reads. \<^verbatim>\<open>PodPhase\<close> is a string type and \<^verbatim>\<open>PodRunning\<close> its
  constant \<^verbatim>\<open>"Running"\<close>; \<^verbatim>\<open>ContainerPort\<close> is an \<^verbatim>\<open>int32\<close>.
\<close>

type_synonym PodPhase = string

definition PodRunning :: PodPhase where
  "PodRunning = ''Running''"

record ContainerPort =
  port_Name :: string
  port_ContainerPort :: "32 word"

record Container =
  container_Name :: string
  container_Ports :: "ContainerPort list"

record Pod =
  pod_Name :: string
  pod_Namespace :: string
  pod_Phase :: PodPhase
  pod_Containers :: "Container list"

text \<open>The zero values that \<^verbatim>\<open>var container corev1.Container\<close> and
  \<^verbatim>\<open>var port corev1.ContainerPort\<close> declare.\<close>

definition zero_Container :: Container where
  "zero_Container = \<lparr>container_Name = '''', container_Ports = []\<rparr>"

definition zero_ContainerPort :: ContainerPort where
  "zero_ContainerPort = \<lparr>port_Name = '''', port_ContainerPort = 0\<rparr>"

text \<open>
  The request the REST client builds,
  \<^verbatim>\<open>Post().Resource("pods").Namespace(namespace).Name(podName).SubResource("portforward")\<close>,
  kept as the arguments the code hands to the builder. How client-go renders them into
  \<^verbatim>\<open>URL()\<close> (it refuses a name that is empty or holds \<^verbatim>\<open>/\<close> or \<^verbatim>\<open>%\<close>, and then
  leaves out the name and the subresource) is outside this package and not modelled.
\<close>

record rest_request =
  req_verb :: string
  req_resource :: string
  req_namespace :: string
  req_name :: string
  req_subresource :: string

record 'cfg KubernetesAPI =
  api_Config :: 'cfg

subsection \<open>Channels\<close>

text \<open>
  A channel of \<^verbatim>\<open>struct{}\<close> as far as the package uses one: its capacity and whether
  it has been closed. \<^verbatim>\<open>close\<close> on a closed channel panics in Go.
\<close>

record chan =
  chan_cap :: nat
  chan_closed :: bool

definition make_chan :: "nat \<Rightarrow> chan" where
  "make_chan n = \<lparr>chan_cap = n, chan_closed = False\<rparr>"

definition close_chan :: "chan \<Rightarrow> panic + chan" where
  "close_chan c = (if chan_closed c then Inl (Panic ''close of closed channel'')
                   else Inr (c\<lparr>chan_closed := True\<rparr>))"

subsection \<open>The session\<close>

record 'cfg PortForward =
  pf_method :: string
  pf_url :: rest_request
  pf_localPort :: int
  pf_remotePort :: int
  pf_emitLogs :: bool
  pf_stopCh :: chan
  pf_readyCh :: chan
  pf_config :: 'cfg

subsection \<open>The network stack and getEphemeralPort\<close>

text \<open>
  The state of the process's listening sockets: how many times \<^verbatim>\<open>net.Listen\<close> was
  called and which listeners are open. What the operating system answers to
  \<^verbatim>\<open>net.Listen("tcp", ":0")\<close> is an input: an error, or a listener known by its
  address, which is a \<^verbatim>\<open>*net.TCPAddr\<close> with its port or some other \<^verbatim>\<open>net.Addr\<close>
  with its \<^verbatim>\<open>String()\<close>.
\<close>

datatype addr = TCPAddr int | OtherAddr string

record net =
  net_listenCalls :: nat
  net_open :: "addr list"

definition net_Listen :: "error + addr \<Rightarrow> net \<Rightarrow> (error + addr) \<times> net" where
  "net_Listen answer w =
     (case answer of
        Inl err \<Rightarrow> (Inl err, w\<lparr>net_listenCalls := Suc (net_listenCalls w)\<rparr>)
      | Inr ln \<Rightarrow> (Inr ln, w\<lparr>net_listenCalls := Suc (net_listenCalls w),
                              net_open := ln # net_open w\<rparr>))"

definition ln_Close :: "addr \<Rightarrow> net \<Rightarrow> net" where
  "ln_Close ln w = w\<lparr>net_open := remove1 ln (net_open w)\<rparr>"

text \<open>\<^verbatim>\<open>defer ln.Close()\<close> runs on both returns that follow it.\<close>

definition getEphemeralPort :: "error + addr \<Rightarrow> net \<Rightarrow> (error + int) \<times> net" where
  "getEphemeralPort answer w =
     (case net_Listen answer w of
        (Inl err, w1) \<Rightarrow> (Inl err, w1)
      | (Inr ln, w1) \<Rightarrow>
          (case ln of
             OtherAddr s \<Rightarrow> (Inl (Errorf (''invalid listen address: '' @ s)), ln_Close ln w1)
           | TCPAddr port \<Rightarrow> (Inr port, ln_Close ln w1)))"

subsection \<open>Constructors\<close>

definition newPortForward ::
  "error + addr \<Rightarrow> net \<Rightarrow> 'cfg KubernetesAPI \<Rightarrow> string \<Rightarrow> string \<Rightarrow> int \<Rightarrow> int \<Rightarrow> bool
     \<Rightarrow> (error + 'cfg PortForward) \<times> net" where
  "newPortForward listenAnswer w k8sAPI namespace podName localPort remotePort emitLogs =
     (let req = \<lparr>req_verb = ''POST'', req_resource = ''pods'', req_namespace = namespace,
                 req_name = podName, req_subresource = ''portforward''\<rparr>;
          session = (\<lambda>lp. \<lparr>pf_method = ''POST'', pf_url = req, pf_localPort = lp,
                          pf_remotePort = remotePort, pf_emitLogs = emitLogs,
                          pf_stopCh = make_chan 1, pf_readyCh = make_chan 0,
                          pf_config = api_Config k8sAPI\<rparr>)
      in if localPort = 0
         then (case getEphemeralPort listenAnswer w of
                 (Inl err, w') \<Rightarrow> (Inl err, w')
               | (Inr lp, w') \<Rightarrow> (Inr (session lp), w'))
         else (Inr (session localPort), w))"

text \<open>The loop of \<^verbatim>\<open>NewPortForward\<close> over \<^verbatim>\<open>podList.Items\<close>; \<^verbatim>\<open>podName\<close> starts
  as the empty string and the loop breaks at the first hit.\<close>

fun podName_loop :: "string \<Rightarrow> Pod list \<Rightarrow> string" where
  "podName_loop deployName [] = ''''"
| "podName_loop deployName (pod # items) =
     (if pod_Phase pod = PodRunning
      then (if HasPrefix (pod_Name pod) deployName then pod_Name pod
            else podName_loop deployName items)
      else podName_loop deployName items)"

text \<open>\<open>listAnswer\<close> is what the pod list query of the namespace (with its server-side
  timeout of 30 seconds) answers.\<close>

definition NewPortForward ::
  "error + Pod list \<Rightarrow> error + addr \<Rightarrow> net \<Rightarrow> 'cfg KubernetesAPI \<Rightarrow> string \<Rightarrow> string
     \<Rightarrow> int \<Rightarrow> int \<Rightarrow> bool \<Rightarrow> (error + 'cfg PortForward) \<times> net" where
  "NewPortForward listAnswer listenAnswer w k8sAPI namespace deployName localPort remotePort
       emitLogs =
     (case listAnswer of
        Inl err \<Rightarrow> (Inl err, w)
      | Inr items \<Rightarrow>
          (let podName = podName_loop deployName items
           in if podName = ''''
              then (Inl (Errorf (''no running pods found for '' @ deployName)), w)
              else newPortForward listenAnswer w k8sAPI namespace podName localPort remotePort
                     emitLogs))"

text \<open>The two loops of \<^verbatim>\<open>NewProxyMetricsForward\<close>, each from the zero value to the
  first element with the name looked for.\<close>

fun container_loop :: "string \<Rightarrow> Container list \<Rightarrow> Container" where
  "container_loop n [] = zero_Container"
| "container_loop n (c # cs) = (if container_Name c = n then c else container_loop n cs)"

fun port_loop :: "string \<Rightarrow> ContainerPort list \<Rightarrow> ContainerPort" where
  "port_loop n [] = zero_ContainerPort"
| "port_loop n (p # ps) = (if port_Name p = n then p else port_loop n ps)"

text \<open>
  The constants \<^verbatim>\<open>ProxyContainerName\<close> and \<^verbatim>\<open>ProxyAdminPortName\<close> are declared in
  another file of the package; they are the first two parameters.
  \<^verbatim>\<open>int(port.ContainerPort)\<close> converts the \<^verbatim>\<open>int32\<close> with its sign.
\<close>

definition NewProxyMetricsForward ::
  "string \<Rightarrow> string \<Rightarrow> error + addr \<Rightarrow> net \<Rightarrow> 'cfg KubernetesAPI \<Rightarrow> Pod \<Rightarrow> bool
     \<Rightarrow> (error + 'cfg PortForward) \<times> net" where
  "NewProxyMetricsForward ProxyContainerName ProxyAdminPortName listenAnswer w k8sAPI pod
       emitLogs =
     (if pod_Phase pod \<noteq> PodRunning
      then (Inl (Errorf (''pod not running: '' @ pod_Name pod)), w)
      else
        (let container = container_loop ProxyContainerName (pod_Containers pod)
         in if container_Name container \<noteq> ProxyContainerName
            then (Inl (Errorf (''no '' @ ProxyContainerName @ '' container found for pod ''
                                @ pod_Name pod)), w)
            else
              (let port = port_loop ProxyAdminPortName (container_Ports container)
               in if port_Name port \<noteq> ProxyAdminPortName
                  then (Inl (Errorf (''no '' @ ProxyAdminPortName @ '' port found for container ''
                                      @ pod_Name pod @ ''/'' @ container_Name container)), w)
                  else newPortForward listenAnswer w k8sAPI (pod_Namespace pod) (pod_Name pod)
                         0 (sint (port_ContainerPort port)) emitLogs)))"

subsection \<open>Run, Stop, URLFor\<close>

text \<open>
  \<^verbatim>\<open>Run\<close> calls \<^verbatim>\<open>spdy.RoundTripperFor\<close>, \<^verbatim>\<open>spdy.NewDialer\<close>,
  \<^verbatim>\<open>portforward.New\<close> and \<^verbatim>\<open>ForwardPorts\<close>. The answers of the first and the third
  are inputs: \<open>rtAnswer\<close> an error or a transport and an upgrader, \<open>newAnswer\<close> an
  error or a forwarder. The calls \<^verbatim>\<open>Run\<close> makes, each with the arguments it passes,
  are part of the result, in order, and so is every write that arrives on the standard
  output or the standard error of the process. \<^verbatim>\<open>Run\<close> either returns (an error or
  nil) or the process panics.
\<close>

datatype writer = Discard | Stdout | Stderr

record ('u, 't) dialer =
  dialer_upgrader :: 'u
  dialer_transport :: 't
  dialer_method :: string
  dialer_url :: rest_request

datatype ('cfg, 'u, 't, 'fw) call =
    Call_RoundTripperFor 'cfg
  | Call_New "('u, 't) dialer" "string list" chan chan writer writer
  | Call_ForwardPorts 'fw
  | Write_Stdout string
  | Write_Stderr string

datatype outcome = Returns "error option" | Panics panic

text \<open>
  Modelled from the spec: the forwarder that \<^verbatim>\<open>portforward.New\<close> builds and
  \<^verbatim>\<open>ForwardPorts\<close> runs is client-go's and is not under src/. By sections 4.3, 4.4, 5
  and 7 of the specification a run of the forwarder ends in one of three ways, and which
  one is an input: the upgrade of the connection fails, and the error is returned; the
  upgrade succeeds and the bind of the local port fails, and the error is returned; or
  both succeed, readiness is signalled, and the forwarder loop runs until it returns
  (nil or an error).
\<close>

datatype fw_end = UpgradeFailed error | BindFailed error | Forwarded "error option"

text \<open>
  Modelled from the spec: what the forwarder reports while it runs, an input. By section
  4.4 its output goes to the two writers it was given, \<open>Out\<close> to \<^verbatim>\<open>out\<close> and
  \<open>ErrOut\<close> to \<^verbatim>\<open>errOut\<close>. The third kind is not in the specification: client-go
  reports a lost connection and the errors of a single forwarded connection through its
  own error handler (\<^verbatim>\<open>runtime.HandleError\<close>), which logs to standard error and does
  not use the writers.
\<close>

datatype fw_msg = Out string | ErrOut string | Handled string

text \<open>A write on \<^verbatim>\<open>ioutil.Discard\<close> is dropped; a write on \<^verbatim>\<open>os.Stdout\<close> or
  \<^verbatim>\<open>os.Stderr\<close> arrives on that stream.\<close>

fun write_to :: "writer \<Rightarrow> string \<Rightarrow> ('cfg, 'u, 't, 'fw) call list" where
  "write_to Discard m = []"
| "write_to Stdout m = [Write_Stdout m]"
| "write_to Stderr m = [Write_Stderr m]"

fun emit :: "writer \<Rightarrow> writer \<Rightarrow> fw_msg \<Rightarrow> ('cfg, 'u, 't, 'fw) call list" where
  "emit out errOut (Out m) = write_to out m"
| "emit out errOut (ErrOut m) = write_to errOut m"
| "emit out errOut (Handled m) = [Write_Stderr m]"

text \<open>
  Modelled from the spec: \<^verbatim>\<open>ForwardPorts\<close> of client-go, not under src/ (sections 4.3
  and 7: readiness fires at the point where the upgrade and the local bind have both
  succeeded, and never when one of them fails). Readiness is signalled by closing the
  ready channel, which panics in Go when the channel is closed already. The result is the
  writes that arrived on the standard streams, how the call ended, and the ready channel.
\<close>

definition ForwardPorts ::
  "fw_msg list \<times> fw_end \<Rightarrow> writer \<Rightarrow> writer \<Rightarrow> chan
     \<Rightarrow> ('cfg, 'u, 't, 'fw) call list \<times> outcome \<times> chan" where
  "ForwardPorts fwAnswer out errOut readyCh =
     (case fwAnswer of
        (msgs, fin) \<Rightarrow>
          (concat (map (emit out errOut) msgs),
           (case fin of
              UpgradeFailed err \<Rightarrow> (Returns (Some err), readyCh)
            | BindFailed err \<Rightarrow> (Returns (Some err), readyCh)
            | Forwarded res \<Rightarrow>
                (case close_chan readyCh of
                   Inl p \<Rightarrow> (Panics p, readyCh)
                 | Inr c \<Rightarrow> (Returns res, c)))))"

definition Run ::
  "error + 't \<times> 'u \<Rightarrow> error + 'fw \<Rightarrow> fw_msg list \<times> fw_end \<Rightarrow> 'cfg PortForward
     \<Rightarrow> ('cfg, 'u, 't, 'fw) call list \<times> outcome \<times> 'cfg PortForward" where
  "Run rtAnswer newAnswer fwAnswer pf =
     (case rtAnswer of
        Inl err \<Rightarrow> ([Call_RoundTripperFor (pf_config pf)], Returns (Some err), pf)
      | Inr (transport, upgrader) \<Rightarrow>
          (let out = (if pf_emitLogs pf then Stdout else Discard);
               errOut = (if pf_emitLogs pf then Stderr else Discard);
               ports = [fmt_d (pf_localPort pf) @ '':'' @ fmt_d (pf_remotePort pf)];
               dialer = \<lparr>dialer_upgrader = upgrader, dialer_transport = transport,
                         dialer_method = pf_method pf, dialer_url = pf_url pf\<rparr>;
               calls = [Call_RoundTripperFor (pf_config pf),
                        Call_New dialer ports (pf_stopCh pf) (pf_readyCh pf) out errOut]
           in case newAnswer of
                Inl err \<Rightarrow> (calls, Returns (Some err), pf)
              | Inr fw \<Rightarrow>
                  (case ForwardPorts fwAnswer out errOut (pf_readyCh pf) of
                     (writes, res, readyCh) \<Rightarrow>
                       (calls @ [Call_ForwardPorts fw] @ writes, res,
                        pf\<lparr>pf_readyCh := readyCh\<rparr>))))"

definition Ready :: "'cfg PortForward \<Rightarrow> chan" where
  "Ready pf = pf_readyCh pf"

definition Stop :: "'cfg PortForward \<Rightarrow> panic + 'cfg PortForward" where
  "Stop pf = (case close_chan (pf_stopCh pf) of
                Inl p \<Rightarrow> Inl p
              | Inr c \<Rightarrow> Inr (pf\<lparr>pf_stopCh := c\<rparr>))"

definition URLFor :: "'cfg PortForward \<Rightarrow> string \<Rightarrow> string" where
  "URLFor pf path = ''http://127.0.0.1:'' @ fmt_d (pf_localPort pf) @ path"

subsection \<open>Comparing two runs, and example data\<close>





text \<open>
  The end-to-end scenario of the specification, used where a theorem is tried on a
  concrete input: pod \<^verbatim>\<open>web-7f8\<close> in namespace \<^verbatim>\<open>prod\<close>, with a sidecar container
  \<^verbatim>\<open>web-proxy\<close> whose port \<^verbatim>\<open>admin-http\<close> is container port 9998.
\<close>

definition scenario_api :: "string KubernetesAPI" where
  "scenario_api = \<lparr>api_Config = ''kubeconfig''\<rparr>"

definition scenario_net :: net where
  "scenario_net = \<lparr>net_listenCalls = 0, net_open = []\<rparr>"

definition scenario_pod :: Pod where
  "scenario_pod =
     \<lparr>pod_Name = ''web-7f8'', pod_Namespace = ''prod'', pod_Phase = PodRunning,
      pod_Containers =
        [\<lparr>container_Name = ''web'',
          container_Ports = [\<lparr>port_Name = ''http'', port_ContainerPort = 8080\<rparr>]\<rparr>,
         \<lparr>container_Name = ''web-proxy'',
          container_Ports = [\<lparr>port_Name = ''inbound'', port_ContainerPort = 4143\<rparr>,
                             \<lparr>port_Name = ''admin-http'', port_ContainerPort = 9998\<rparr>]\<rparr>]\<rparr>"

definition scenario_session :: "int \<Rightarrow> string PortForward" where
  "scenario_session lp =
     \<lparr>pf_method = ''POST'',
      pf_url = \<lparr>req_verb = ''POST'', req_resource = ''pods'', req_namespace = ''prod'',
                req_name = ''web-7f8'', req_subresource = ''portforward''\<rparr>,
      pf_localPort = lp, pf_remotePort = 9998, pf_emitLogs = False,
      pf_stopCh = make_chan 1, pf_readyCh = make_chan 0, pf_config = ''kubeconfig''\<rparr>"

definition scenario_pods :: "Pod list" where
  "scenario_pods =
     [\<lparr>pod_Name = ''web-1c2'', pod_Namespace = ''prod'', pod_Phase = ''Pending'',
       pod_Containers = []\<rparr>,
      \<lparr>pod_Name = ''db-0'', pod_Namespace = ''prod'', pod_Phase = PodRunning,
       pod_Containers = []\<rparr>,
      scenario_pod,
      \<lparr>pod_Name = ''web-9d4'', pod_Namespace = ''prod'', pod_Phase = PodRunning,
       pod_Containers = []\<rparr>]"

section \<open>Properties\<close>

subsection \<open>Decimal rendering\<close>

lemma digit_val_digit_char: "d < 10 \<Longrightarrow> digit_val (digit_char d) = d"
  by (auto simp add: digit_val_def digit_char_def)

lemma fmt_nat_nonempty: "fmt_nat n \<noteq> []"
  by (subst fmt_nat.simps) simp

lemma read_nat_snoc: "read_nat (s @ [c]) = 10 * read_nat s + digit_val c"
  by (simp add: read_nat_def)

lemma read_nat_fmt_nat: "read_nat (fmt_nat n) = n"
proof (induction n rule: fmt_nat.induct)
  case (1 n)
  show ?case
  proof (cases "n < 10")
    case True
    then show ?thesis
      by (subst fmt_nat.simps) (simp add: read_nat_def digit_val_digit_char)
  next
    case False
    with "1" have "read_nat (fmt_nat (n div 10)) = n div 10" by simp
    with False show ?thesis
      by (subst fmt_nat.simps) (simp add: read_nat_snoc digit_val_digit_char)
  qed
qed

lemma digit_char_not_minus: "digit_char d \<noteq> CHR ''-''"
  by (simp add: digit_char_def)

lemma hd_fmt_nat: "hd (fmt_nat n) \<noteq> CHR ''-''"
proof (induction n rule: fmt_nat.induct)
  case (1 n)
  show ?case
  proof (cases "n < 10")
    case True
    then show ?thesis
      by (subst fmt_nat.simps) (simp add: digit_char_not_minus)
  next
    case False
    with "1" have "hd (fmt_nat (n div 10)) \<noteq> CHR ''-''" by simp
    with False show ?thesis
      by (subst fmt_nat.simps) (simp add: fmt_nat_nonempty)
  qed
qed

lemma read_int_fmt_d: "read_int (fmt_d i) = i"
proof (cases "i < 0")
  case True
  then show ?thesis
    by (simp add: fmt_d_def read_int_def read_nat_fmt_nat)
next
  case False
  obtain c r where cr: "fmt_nat (nat i) = c # r"
    using fmt_nat_nonempty [of "nat i"] by (cases "fmt_nat (nat i)") auto
  with hd_fmt_nat [of "nat i"] have "c \<noteq> CHR ''-''" by simp
  with False cr read_nat_fmt_nat [of "nat i"] show ?thesis
    by (simp add: fmt_d_def read_int_def)
qed

subsection \<open>The loops find the first hit\<close>

lemma podName_loop_find:
  "podName_loop dn items =
     (case find (\<lambda>p. pod_Phase p = PodRunning \<and> HasPrefix (pod_Name p) dn) items of
        None \<Rightarrow> '''' | Some p \<Rightarrow> pod_Name p)"
  by (induction items) simp_all

lemma container_loop_find:
  "container_loop n cs =
     (case find (\<lambda>c. container_Name c = n) cs of None \<Rightarrow> zero_Container | Some c \<Rightarrow> c)"
  by (induction cs) simp_all

lemma port_loop_find:
  "port_loop n ps =
     (case find (\<lambda>p. port_Name p = n) ps of None \<Rightarrow> zero_ContainerPort | Some p \<Rightarrow> p)"
  by (induction ps) simp_all

lemma find_Some_holds: "find P xs = Some x \<Longrightarrow> P x"
  by (induction xs) (auto split: if_splits)

lemma scenario_listen:
  "getEphemeralPort (Inr (TCPAddr 40000)) scenario_net
     = (Inr 40000, \<lparr>net_listenCalls = 1, net_open = []\<rparr>)"
  by (simp add: getEphemeralPort_def net_Listen_def ln_Close_def scenario_net_def)

lemma scenario_listen_refused:
  "getEphemeralPort (Inl (Foreign ''listen tcp :0: bind: permission denied'')) scenario_net
     = (Inl (Foreign ''listen tcp :0: bind: permission denied''),
        \<lparr>net_listenCalls = 1, net_open = []\<rparr>)"
  by (simp add: getEphemeralPort_def net_Listen_def scenario_net_def)

subsection \<open>URLFor\<close>

text \<open>
  Claim C9. For every session and every path, \<^verbatim>\<open>URLFor(path)\<close> (the specification's
  LocalURL) is exactly \<^verbatim>\<open>http://127.0.0.1:\<close> followed by the session's local port in
  decimal and then the path as given. The digits read back as the local port. The
  function returns a string and nothing else, and two sessions with the same local port
  give the same string, so it reads no other state and changes none.
\<close>

theorem URLFor_format:
  "URLFor pf path = ''http://127.0.0.1:'' @ fmt_d (pf_localPort pf) @ path
   \<and> read_int (fmt_d (pf_localPort pf)) = pf_localPort pf
   \<and> (pf_localPort pf' = pf_localPort pf \<longrightarrow> URLFor pf' path = URLFor pf path)"
  by (simp add: URLFor_def read_int_fmt_d)

theorem URLFor_format_witness:
  "pf_localPort ((scenario_session 8080)\<lparr>pf_emitLogs := True\<rparr>)
     = pf_localPort (scenario_session 8080)
   \<and> URLFor (scenario_session 8080) ''/ready'' = ''http://127.0.0.1:8080/ready''
   \<and> URLFor ((scenario_session 8080)\<lparr>pf_emitLogs := True\<rparr>) ''/ready''
       = ''http://127.0.0.1:8080/ready''"
  using URLFor_format [of "scenario_session 8080" "''/ready''"
      "(scenario_session 8080)\<lparr>pf_emitLogs := True\<rparr>"]
  by (simp add: scenario_session_def fmt_d_def fmt_nat.simps digit_char_def)

subsection \<open>getEphemeralPort\<close>

text \<open>
  Claim C7. \<^verbatim>\<open>getEphemeralPort\<close> fails exactly when \<^verbatim>\<open>net.Listen\<close> on port 0 of
  the wildcard address fails, or when the address of the listener is not a TCP address.
  A listen error is returned as it is. Otherwise the result is the port read from the
  listener's address. On every exit path the set of open listeners is what it was
  before the call: the listener that was opened has been closed. One call of
  \<^verbatim>\<open>net.Listen\<close> is made.
\<close>

theorem getEphemeralPort_result:
  "((\<exists>err. fst (getEphemeralPort answer w) = Inl err)
      \<longleftrightarrow> (\<exists>err. answer = Inl err) \<or> (\<exists>s. answer = Inr (OtherAddr s)))
   \<and> (\<forall>err. answer = Inl err \<longrightarrow> fst (getEphemeralPort answer w) = Inl err)
   \<and> (\<forall>port. answer = Inr (TCPAddr port) \<longrightarrow> fst (getEphemeralPort answer w) = Inr port)
   \<and> net_open (snd (getEphemeralPort answer w)) = net_open w
   \<and> net_listenCalls (snd (getEphemeralPort answer w)) = Suc (net_listenCalls w)"
  by (auto simp add: getEphemeralPort_def net_Listen_def ln_Close_def
        split: sum.splits addr.splits)

theorem getEphemeralPort_result_witness:
  "fst (getEphemeralPort (Inr (TCPAddr 40000)) scenario_net) = Inr 40000
   \<and> net_open (snd (getEphemeralPort (Inr (TCPAddr 40000)) scenario_net)) = []
   \<and> (\<exists>err. fst (getEphemeralPort (Inr (OtherAddr ''/tmp/sock'')) scenario_net) = Inl err)
   \<and> net_open (snd (getEphemeralPort (Inr (OtherAddr ''/tmp/sock'')) scenario_net)) = []
   \<and> fst (getEphemeralPort (Inl (Foreign ''bind: permission denied'')) scenario_net)
       = Inl (Foreign ''bind: permission denied'')"
  using getEphemeralPort_result [of "Inr (TCPAddr 40000)" scenario_net]
    getEphemeralPort_result [of "Inr (OtherAddr ''/tmp/sock'')" scenario_net]
    getEphemeralPort_result [of "Inl (Foreign ''bind: permission denied'')" scenario_net]
  by (simp add: scenario_net_def)

subsection \<open>newPortForward\<close>

text \<open>
  Claim C5. For every construction of a session by \<^verbatim>\<open>newPortForward\<close>: when the
  local port given is not 0, construction succeeds, the session's local port is the
  given value as it is, and the network state is untouched (no call of the allocator, no
  check of the port). When the local port given is 0, the allocator is called: if it
  fails, construction fails with its error, and if it returns a port, that port is the
  session's local port.
\<close>

theorem newPortForward_localPort:
  "(localPort \<noteq> 0 \<longrightarrow>
      (\<exists>s. newPortForward la w api ns pod localPort rp el = (Inr s, w)
           \<and> pf_localPort s = localPort))
   \<and> (localPort = 0 \<longrightarrow>
        (\<forall>err w'. getEphemeralPort la w = (Inl err, w')
           \<longrightarrow> newPortForward la w api ns pod localPort rp el = (Inl err, w'))
      \<and> (\<forall>p w'. getEphemeralPort la w = (Inr p, w')
           \<longrightarrow> (\<exists>s. newPortForward la w api ns pod localPort rp el = (Inr s, w')
                    \<and> pf_localPort s = p)))"
  by (simp add: newPortForward_def)

theorem newPortForward_localPort_witness:
  "(8080::int) \<noteq> 0
   \<and> (\<exists>s. newPortForward (Inr (TCPAddr 40000)) scenario_net scenario_api ''prod'' ''web-7f8''
             8080 9998 False = (Inr s, scenario_net) \<and> pf_localPort s = 8080)
   \<and> (\<exists>s. newPortForward (Inr (TCPAddr 40000)) scenario_net scenario_api ''prod'' ''web-7f8''
             0 9998 False = (Inr s, \<lparr>net_listenCalls = 1, net_open = []\<rparr>)
           \<and> pf_localPort s = 40000)
   \<and> newPortForward (Inl (Foreign ''listen tcp :0: bind: permission denied'')) scenario_net
        scenario_api ''prod'' ''web-7f8'' 0 9998 False
       = (Inl (Foreign ''listen tcp :0: bind: permission denied''),
          \<lparr>net_listenCalls = 1, net_open = []\<rparr>)"
  using newPortForward_localPort [of 8080 "Inr (TCPAddr 40000)" scenario_net scenario_api
      "''prod''" "''web-7f8''" 9998 False]
    newPortForward_localPort [of 0 "Inr (TCPAddr 40000)" scenario_net scenario_api
      "''prod''" "''web-7f8''" 9998 False]
    newPortForward_localPort [of 0 "Inl (Foreign ''listen tcp :0: bind: permission denied'')"
      scenario_net scenario_api "''prod''" "''web-7f8''" 9998 False]
    scenario_listen scenario_listen_refused
  by simp

lemma newPortForward_target:
  "newPortForward la w api ns pod lp rp el = (Inr s, w')
     \<Longrightarrow> pf_remotePort s = rp
         \<and> \<not> chan_closed (pf_stopCh s) \<and> \<not> chan_closed (pf_readyCh s)"
  by (auto simp add: newPortForward_def make_chan_def Let_def
        split: if_splits prod.splits sum.splits)

subsection \<open>NewPortForward: which pod is selected\<close>

text \<open>
  Claim C1. The list query has answered with the pods \<open>items\<close>, each with a name, as
  the pods of a cluster have. If the list holds a pod in phase Running whose name starts
  with the prefix, \<^verbatim>\<open>NewPortForward\<close> builds the session for the first such pod in
  the order of the list: no pod after it and no pod before it is taken, and the list is
  not sorted. If no Running pod of the list has a name that starts with the prefix, it
  fails with the error \<^verbatim>\<open>no running pods found for <prefix>\<close> and leaves the network
  state as it was.
\<close>

theorem NewPortForward_first_running:
  assumes "\<forall>p \<in> set items. pod_Name p \<noteq> ''''"
  shows
    "(\<forall>p. find (\<lambda>p. pod_Phase p = PodRunning \<and> HasPrefix (pod_Name p) dn) items = Some p
        \<longrightarrow> NewPortForward (Inr items) la w api ns dn lp rp el
              = newPortForward la w api ns (pod_Name p) lp rp el)
     \<and> (find (\<lambda>p. pod_Phase p = PodRunning \<and> HasPrefix (pod_Name p) dn) items = None
          \<longrightarrow> NewPortForward (Inr items) la w api ns dn lp rp el
                = (Inl (Errorf (''no running pods found for '' @ dn)), w))"
proof (intro conjI allI impI)
  fix p
  assume hit: "find (\<lambda>p. pod_Phase p = PodRunning \<and> HasPrefix (pod_Name p) dn) items = Some p"
  then have "p \<in> set items"
    by (auto simp add: find_Some_iff)
  with assms have "pod_Name p \<noteq> ''''"
    by blast
  with hit show "NewPortForward (Inr items) la w api ns dn lp rp el
      = newPortForward la w api ns (pod_Name p) lp rp el"
    by (simp add: NewPortForward_def podName_loop_find)
next
  assume "find (\<lambda>p. pod_Phase p = PodRunning \<and> HasPrefix (pod_Name p) dn) items = None"
  then show "NewPortForward (Inr items) la w api ns dn lp rp el
      = (Inl (Errorf (''no running pods found for '' @ dn)), w)"
    by (simp add: NewPortForward_def podName_loop_find)
qed

theorem NewPortForward_first_running_witness:
  "map pod_Name scenario_pods = [''web-1c2'', ''db-0'', ''web-7f8'', ''web-9d4'']
   \<and> find (\<lambda>p. pod_Phase p = PodRunning \<and> HasPrefix (pod_Name p) ''web'') scenario_pods
       = Some scenario_pod
   \<and> NewPortForward (Inr scenario_pods) (Inr (TCPAddr 40000)) scenario_net scenario_api
        ''prod'' ''web'' 8080 9998 False
       = newPortForward (Inr (TCPAddr 40000)) scenario_net scenario_api ''prod'' ''web-7f8''
           8080 9998 False
   \<and> find (\<lambda>p. pod_Phase p = PodRunning \<and> HasPrefix (pod_Name p) ''ghost'') scenario_pods
       = None
   \<and> NewPortForward (Inr scenario_pods) (Inr (TCPAddr 40000)) scenario_net scenario_api
        ''prod'' ''ghost'' 8080 9998 False
       = (Inl (Errorf ''no running pods found for ghost''), scenario_net)"
proof -
  have named: "\<forall>p \<in> set scenario_pods. pod_Name p \<noteq> ''''"
    by (simp add: scenario_pods_def scenario_pod_def)
  have hit: "find (\<lambda>p. pod_Phase p = PodRunning \<and> HasPrefix (pod_Name p) ''web'') scenario_pods
               = Some scenario_pod"
    by (simp add: scenario_pods_def scenario_pod_def PodRunning_def HasPrefix_def)
  have miss: "find (\<lambda>p. pod_Phase p = PodRunning \<and> HasPrefix (pod_Name p) ''ghost'')
                scenario_pods = None"
    by (simp add: scenario_pods_def scenario_pod_def PodRunning_def HasPrefix_def)
  have name: "pod_Name scenario_pod = ''web-7f8''"
    by (simp add: scenario_pod_def)
  note web = NewPortForward_first_running [OF named, of "''web''" "Inr (TCPAddr 40000)"
      scenario_net scenario_api "''prod''" 8080 9998 False]
  note ghost = NewPortForward_first_running [OF named, of "''ghost''" "Inr (TCPAddr 40000)"
      scenario_net scenario_api "''prod''" 8080 9998 False]
  from web hit name have one: "NewPortForward (Inr scenario_pods) (Inr (TCPAddr 40000))
      scenario_net scenario_api ''prod'' ''web'' 8080 9998 False
      = newPortForward (Inr (TCPAddr 40000)) scenario_net scenario_api ''prod'' ''web-7f8''
          8080 9998 False"
    by simp
  from ghost miss have two: "NewPortForward (Inr scenario_pods) (Inr (TCPAddr 40000))
      scenario_net scenario_api ''prod'' ''ghost'' 8080 9998 False
      = (Inl (Errorf ''no running pods found for ghost''), scenario_net)"
    by simp
  have names: "map pod_Name scenario_pods = [''web-1c2'', ''db-0'', ''web-7f8'', ''web-9d4'']"
    by (simp add: scenario_pods_def scenario_pod_def)
  from names hit miss one two show ?thesis
    by blast
qed

subsection \<open>Stop\<close>

text \<open>
  Claim C2, as the code has it. \<^verbatim>\<open>Stop\<close> closes the stop channel with no guard.
  It returns normally exactly when the stop channel is still open; on a session whose
  stop channel is closed it panics, so a second \<^verbatim>\<open>Stop\<close> after a first one always
  panics. The first \<^verbatim>\<open>Stop\<close> on a session that \<^verbatim>\<open>newPortForward\<close> built never
  panics, and \<^verbatim>\<open>Run\<close> leaves the stop channel as it found it, so none of this depends
  on whether \<^verbatim>\<open>Run\<close> has been started or has returned.
\<close>

theorem Stop_once:
  "((\<exists>pf'. Stop pf = Inr pf') \<longleftrightarrow> \<not> chan_closed (pf_stopCh pf))
   \<and> (\<forall>pf'. Stop pf = Inr pf' \<longrightarrow> Stop pf' = Inl (Panic ''close of closed channel''))
   \<and> (chan_closed (pf_stopCh pf) \<longrightarrow> Stop pf = Inl (Panic ''close of closed channel''))
   \<and> (\<forall>s w'. newPortForward la w api ns pod lp rp el = (Inr s, w') \<longrightarrow> (\<exists>s'. Stop s = Inr s'))
   \<and> pf_stopCh (snd (snd (Run rt nw fw pf))) = pf_stopCh pf"
  by (auto simp add: Stop_def close_chan_def Run_def Let_def ForwardPorts_def
        dest: newPortForward_target split: sum.splits prod.splits if_splits fw_end.splits)

theorem Stop_once_witness:
  "\<not> chan_closed (pf_stopCh (scenario_session 8080))
   \<and> (\<exists>s'. Stop (scenario_session 8080) = Inr s'
           \<and> Stop s' = Inl (Panic ''close of closed channel''))
   \<and> newPortForward (Inr (TCPAddr 40000)) scenario_net scenario_api ''prod'' ''web-7f8''
        8080 9998 False = (Inr (scenario_session 8080), scenario_net)"
proof -
  have opn: "\<not> chan_closed (pf_stopCh (scenario_session 8080))"
    by (simp add: scenario_session_def make_chan_def)
  have built: "newPortForward (Inr (TCPAddr 40000)) scenario_net scenario_api ''prod''
      ''web-7f8'' 8080 9998 False = (Inr (scenario_session 8080), scenario_net)"
    by (simp add: newPortForward_def scenario_session_def scenario_api_def Let_def)
  note fact = Stop_once [of "scenario_session 8080" "Inr (TCPAddr 40000)" scenario_net
      scenario_api "''prod''" "''web-7f8''" 8080 9998 False
      "Inl (Foreign ''x'') :: error + nat \<times> nat" "Inl (Foreign ''x'') :: error + nat"
      "([], Forwarded None)"]
  from fact opn obtain s' where s': "Stop (scenario_session 8080) = Inr s'"
    by blast
  with fact have "Stop s' = Inl (Panic ''close of closed channel'')"
    by blast
  with s' opn built show ?thesis
    by blast
qed

text \<open>
  The claim as written fails: on a session fresh from \<^verbatim>\<open>newPortForward\<close> the first
  \<^verbatim>\<open>Stop\<close> returns and the second one panics.
\<close>

theorem Stop_twice_counterexample:
  "newPortForward (Inr (TCPAddr 40000)) scenario_net scenario_api ''prod'' ''web-7f8''
      8080 9998 False = (Inr (scenario_session 8080), scenario_net)
   \<and> Stop (scenario_session 8080)
       = Inr ((scenario_session 8080)\<lparr>pf_stopCh := \<lparr>chan_cap = 1, chan_closed = True\<rparr>\<rparr>)
   \<and> Stop ((scenario_session 8080)\<lparr>pf_stopCh := \<lparr>chan_cap = 1, chan_closed = True\<rparr>\<rparr>)
       = Inl (Panic ''close of closed channel'')"
  by (simp add: newPortForward_def Stop_def close_chan_def make_chan_def Let_def
        scenario_session_def scenario_api_def)

subsection \<open>NewProxyMetricsForward\<close>

text \<open>
  Claim C3, as the code has it. \<^verbatim>\<open>NewProxyMetricsForward\<close> checks the phase itself,
  before it looks at the containers: for every pod whose phase is not Running it fails
  with the error \<^verbatim>\<open>pod not running: <pod name>\<close>, whatever containers and ports the
  pod declares, and leaves the network state as it was.
\<close>

theorem NewProxyMetricsForward_checks_phase:
  "pod_Phase pod \<noteq> PodRunning
     \<Longrightarrow> NewProxyMetricsForward X Y la w api pod el
           = (Inl (Errorf (''pod not running: '' @ pod_Name pod)), w)"
  by (simp add: NewProxyMetricsForward_def)

theorem NewProxyMetricsForward_checks_phase_witness:
  "pod_Phase (scenario_pod\<lparr>pod_Phase := ''Pending''\<rparr>) \<noteq> PodRunning
   \<and> NewProxyMetricsForward ''web-proxy'' ''admin-http'' (Inr (TCPAddr 40000)) scenario_net
        scenario_api (scenario_pod\<lparr>pod_Phase := ''Pending''\<rparr>) False
       = (Inl (Errorf ''pod not running: web-7f8''), scenario_net)"
proof -
  have h: "pod_Phase (scenario_pod\<lparr>pod_Phase := ''Pending''\<rparr>) \<noteq> PodRunning"
    by (simp add: PodRunning_def)
  show ?thesis
    using h NewProxyMetricsForward_checks_phase [OF h, of "''web-proxy''" "''admin-http''"
        "Inr (TCPAddr 40000)" scenario_net scenario_api False]
    by (simp add: scenario_pod_def)
qed

text \<open>
  The claim as written fails: two pods that differ in the phase only, one Running and
  one Pending, get different results, a session for the first and an error for the
  second.
\<close>

theorem NewProxyMetricsForward_phase_counterexample:
  "NewProxyMetricsForward ''web-proxy'' ''admin-http'' (Inr (TCPAddr 40000))
      \<lparr>net_listenCalls = 0, net_open = []\<rparr> \<lparr>api_Config = ''kubeconfig''\<rparr>
      \<lparr>pod_Name = ''web-7f8'', pod_Namespace = ''prod'', pod_Phase = ''Running'',
       pod_Containers = [\<lparr>container_Name = ''web-proxy'', container_Ports =
         [\<lparr>port_Name = ''admin-http'', port_ContainerPort = 9998\<rparr>]\<rparr>]\<rparr> False
     \<noteq> NewProxyMetricsForward ''web-proxy'' ''admin-http'' (Inr (TCPAddr 40000))
      \<lparr>net_listenCalls = 0, net_open = []\<rparr> \<lparr>api_Config = ''kubeconfig''\<rparr>
      \<lparr>pod_Name = ''web-7f8'', pod_Namespace = ''prod'', pod_Phase = ''Pending'',
       pod_Containers = [\<lparr>container_Name = ''web-proxy'', container_Ports =
         [\<lparr>port_Name = ''admin-http'', port_ContainerPort = 9998\<rparr>]\<rparr>]\<rparr> False"
  by (simp add: NewProxyMetricsForward_def PodRunning_def newPortForward_def Let_def
        getEphemeralPort_def net_Listen_def ln_Close_def)

text \<open>
  Claim C4. The two constants are not the empty string, and the pod is in phase Running,
  which the contract of the operation requires. For every such pod that has no container
  named with the sidecar-container constant, and for every such pod whose first
  container of that name has no port named with the admin-port constant,
  \<^verbatim>\<open>NewProxyMetricsForward\<close> fails with an error of the one kind the package makes
  (\<^verbatim>\<open>fmt.Errorf\<close>), never another, and the message names the lookup that failed:
  \<^verbatim>\<open>no <container constant> container found for pod <pod>\<close>, or
  \<^verbatim>\<open>no <port constant> port found for container <pod>/<container constant>\<close>. The
  network state is left as it was. The error is of that one kind in every other phase
  too.
\<close>

theorem NewProxyMetricsForward_not_found:
  assumes "ProxyContainerName \<noteq> ''''" and "ProxyAdminPortName \<noteq> ''''"
  shows
    "(find (\<lambda>c. container_Name c = ProxyContainerName) (pod_Containers pod) = None
        \<longrightarrow> (\<exists>msg. NewProxyMetricsForward ProxyContainerName ProxyAdminPortName la w api pod el
                     = (Inl (Errorf msg), w))
          \<and> (pod_Phase pod = PodRunning
               \<longrightarrow> NewProxyMetricsForward ProxyContainerName ProxyAdminPortName la w api pod el
                     = (Inl (Errorf (''no '' @ ProxyContainerName
                                      @ '' container found for pod '' @ pod_Name pod)), w)))
     \<and> (\<forall>c. find (\<lambda>c. container_Name c = ProxyContainerName) (pod_Containers pod) = Some c
              \<and> find (\<lambda>p. port_Name p = ProxyAdminPortName) (container_Ports c) = None
          \<longrightarrow> (\<exists>msg. NewProxyMetricsForward ProxyContainerName ProxyAdminPortName la w api pod el
                       = (Inl (Errorf msg), w))
            \<and> (pod_Phase pod = PodRunning
                 \<longrightarrow> NewProxyMetricsForward ProxyContainerName ProxyAdminPortName la w api pod el
                       = (Inl (Errorf (''no '' @ ProxyAdminPortName
                                        @ '' port found for container '' @ pod_Name pod
                                        @ ''/'' @ ProxyContainerName)), w)))"
proof -
  have noc: "find (\<lambda>c. container_Name c = ProxyContainerName) (pod_Containers pod) = None
      \<Longrightarrow> container_Name (container_loop ProxyContainerName (pod_Containers pod))
            \<noteq> ProxyContainerName"
    using assms(1) by (simp add: container_loop_find zero_Container_def)
  have nop: "find (\<lambda>c. container_Name c = ProxyContainerName) (pod_Containers pod) = Some c
      \<Longrightarrow> find (\<lambda>p. port_Name p = ProxyAdminPortName) (container_Ports c) = None
      \<Longrightarrow> container_loop ProxyContainerName (pod_Containers pod) = c
          \<and> container_Name c = ProxyContainerName
          \<and> port_Name (port_loop ProxyAdminPortName (container_Ports c)) \<noteq> ProxyAdminPortName"
    for c
    using assms(2) find_Some_holds [of "\<lambda>c. container_Name c = ProxyContainerName"]
    by (simp add: container_loop_find port_loop_find zero_ContainerPort_def)
  show ?thesis
  proof (intro conjI impI allI)
    assume "find (\<lambda>c. container_Name c = ProxyContainerName) (pod_Containers pod) = None"
    from noc [OF this]
    show "\<exists>msg. NewProxyMetricsForward ProxyContainerName ProxyAdminPortName la w api pod el
            = (Inl (Errorf msg), w)"
      by (simp add: NewProxyMetricsForward_def Let_def)
  next
    assume "find (\<lambda>c. container_Name c = ProxyContainerName) (pod_Containers pod) = None"
      and "pod_Phase pod = PodRunning"
    with noc
    show "NewProxyMetricsForward ProxyContainerName ProxyAdminPortName la w api pod el
            = (Inl (Errorf (''no '' @ ProxyContainerName @ '' container found for pod ''
                             @ pod_Name pod)), w)"
      by (simp add: NewProxyMetricsForward_def Let_def)
  next
    fix c
    assume "find (\<lambda>c. container_Name c = ProxyContainerName) (pod_Containers pod) = Some c
            \<and> find (\<lambda>p. port_Name p = ProxyAdminPortName) (container_Ports c) = None"
    with nop [of c]
    show "\<exists>msg. NewProxyMetricsForward ProxyContainerName ProxyAdminPortName la w api pod el
            = (Inl (Errorf msg), w)"
      by (simp add: NewProxyMetricsForward_def Let_def)
  next
    fix c
    assume "find (\<lambda>c. container_Name c = ProxyContainerName) (pod_Containers pod) = Some c
            \<and> find (\<lambda>p. port_Name p = ProxyAdminPortName) (container_Ports c) = None"
      and "pod_Phase pod = PodRunning"
    with nop [of c]
    show "NewProxyMetricsForward ProxyContainerName ProxyAdminPortName la w api pod el
            = (Inl (Errorf (''no '' @ ProxyAdminPortName @ '' port found for container ''
                             @ pod_Name pod @ ''/'' @ ProxyContainerName)), w)"
      by (simp add: NewProxyMetricsForward_def Let_def)
  qed
qed

theorem NewProxyMetricsForward_not_found_witness:
  "''linkerd-proxy'' \<noteq> '''' \<and> ''admin-http'' \<noteq> '''' \<and> ''web-proxy'' \<noteq> ''''
   \<and> ''linkerd-admin'' \<noteq> '''' \<and> pod_Phase scenario_pod = PodRunning
   \<and> find (\<lambda>c. container_Name c = ''linkerd-proxy'') (pod_Containers scenario_pod) = None
   \<and> NewProxyMetricsForward ''linkerd-proxy'' ''admin-http'' (Inr (TCPAddr 40000)) scenario_net
        scenario_api scenario_pod False
       = (Inl (Errorf ''no linkerd-proxy container found for pod web-7f8''), scenario_net)
   \<and> find (\<lambda>c. container_Name c = ''web-proxy'') (pod_Containers scenario_pod)
       = Some (pod_Containers scenario_pod ! 1)
   \<and> find (\<lambda>p. port_Name p = ''linkerd-admin'')
        (container_Ports (pod_Containers scenario_pod ! 1)) = None
   \<and> NewProxyMetricsForward ''web-proxy'' ''linkerd-admin'' (Inr (TCPAddr 40000)) scenario_net
        scenario_api scenario_pod False
       = (Inl (Errorf ''no linkerd-admin port found for container web-7f8/web-proxy''),
          scenario_net)"
proof -
  have run: "pod_Phase scenario_pod = PodRunning"
    by (simp add: scenario_pod_def)
  have name: "pod_Name scenario_pod = ''web-7f8''"
    by (simp add: scenario_pod_def)
  have noc: "find (\<lambda>c. container_Name c = ''linkerd-proxy'') (pod_Containers scenario_pod)
               = None"
    by (simp add: scenario_pod_def)
  have c: "find (\<lambda>c. container_Name c = ''web-proxy'') (pod_Containers scenario_pod)
             = Some (pod_Containers scenario_pod ! 1)"
    by (simp add: scenario_pod_def)
  have nop: "find (\<lambda>p. port_Name p = ''linkerd-admin'')
               (container_Ports (pod_Containers scenario_pod ! 1)) = None"
    by (simp add: scenario_pod_def)
  have ne: "''linkerd-proxy'' \<noteq> ''''" "''admin-http'' \<noteq> ''''" "''web-proxy'' \<noteq> ''''"
    "''linkerd-admin'' \<noteq> ''''"
    by simp_all
  show ?thesis
    using run name noc c nop
      NewProxyMetricsForward_not_found [OF ne(1) ne(2), of scenario_pod "Inr (TCPAddr 40000)"
        scenario_net scenario_api False]
      NewProxyMetricsForward_not_found [OF ne(3) ne(4), of scenario_pod "Inr (TCPAddr 40000)"
        scenario_net scenario_api False]
    by simp
qed

text \<open>
  Claim C10. When \<^verbatim>\<open>NewProxyMetricsForward\<close> gets past its checks (the pod is
  Running, its first container with the sidecar name has a first port with the admin
  name), it is \<^verbatim>\<open>newPortForward\<close> with local port 0 and with the declared container
  port of that port as remote port. So a session it returns has the port the allocator
  returned as local port and that container port as remote port, and a failure of the
  allocator fails the construction. For every pod, every session it returns has a
  local port that the allocator returned: this constructor has no parameter for it.
\<close>

theorem NewProxyMetricsForward_ports:
  "(\<forall>c p. pod_Phase pod = PodRunning
        \<and> find (\<lambda>c. container_Name c = X) (pod_Containers pod) = Some c
        \<and> find (\<lambda>p. port_Name p = Y) (container_Ports c) = Some p
      \<longrightarrow> NewProxyMetricsForward X Y la w api pod el
            = newPortForward la w api (pod_Namespace pod) (pod_Name pod) 0
                (sint (port_ContainerPort p)) el
          \<and> (\<forall>s w'. NewProxyMetricsForward X Y la w api pod el = (Inr s, w')
                \<longrightarrow> pf_remotePort s = sint (port_ContainerPort p))
          \<and> (\<forall>err w'. getEphemeralPort la w = (Inl err, w')
                \<longrightarrow> NewProxyMetricsForward X Y la w api pod el = (Inl err, w')))
   \<and> (\<forall>s w'. NewProxyMetricsForward X Y la w api pod el = (Inr s, w')
         \<longrightarrow> getEphemeralPort la w = (Inr (pf_localPort s), w'))"
proof -
  have alloc: "newPortForward la w api ns n 0 rp el = (Inr s, w')
      \<Longrightarrow> getEphemeralPort la w = (Inr (pf_localPort s), w')" for ns n rp s w'
    by (auto simp add: newPortForward_def Let_def split: prod.splits sum.splits)
  have fail: "getEphemeralPort la w = (Inl err, w')
      \<Longrightarrow> newPortForward la w api ns n 0 rp el = (Inl err, w')" for ns n rp err w'
    by (simp add: newPortForward_def Let_def)
  have pass: "NewProxyMetricsForward X Y la w api pod el
      = newPortForward la w api (pod_Namespace pod) (pod_Name pod) 0
          (sint (port_ContainerPort p)) el"
    if "pod_Phase pod = PodRunning"
      and "find (\<lambda>c. container_Name c = X) (pod_Containers pod) = Some c"
      and "find (\<lambda>p. port_Name p = Y) (container_Ports c) = Some p" for c p
    using that find_Some_holds [of "\<lambda>c. container_Name c = X" "pod_Containers pod" c]
      find_Some_holds [of "\<lambda>p. port_Name p = Y" "container_Ports c" p]
    by (simp add: NewProxyMetricsForward_def Let_def container_loop_find port_loop_find)
  have any: "NewProxyMetricsForward X Y la w api pod el = (Inr s, w')
      \<Longrightarrow> getEphemeralPort la w = (Inr (pf_localPort s), w')" for s w'
    by (auto simp add: NewProxyMetricsForward_def Let_def dest: alloc split: if_splits)
  have found: "NewProxyMetricsForward X Y la w api pod el
        = newPortForward la w api (pod_Namespace pod) (pod_Name pod) 0
            (sint (port_ContainerPort p)) el
      \<and> (\<forall>s w'. NewProxyMetricsForward X Y la w api pod el = (Inr s, w')
            \<longrightarrow> pf_remotePort s = sint (port_ContainerPort p))
      \<and> (\<forall>err w'. getEphemeralPort la w = (Inl err, w')
            \<longrightarrow> NewProxyMetricsForward X Y la w api pod el = (Inl err, w'))"
    if "pod_Phase pod = PodRunning
        \<and> find (\<lambda>c. container_Name c = X) (pod_Containers pod) = Some c
        \<and> find (\<lambda>p. port_Name p = Y) (container_Ports c) = Some p" for c p
  proof -
    from that have eq: "NewProxyMetricsForward X Y la w api pod el
        = newPortForward la w api (pod_Namespace pod) (pod_Name pod) 0
            (sint (port_ContainerPort p)) el"
      using pass [of c p] by simp
    show ?thesis
      by (auto simp add: eq fail dest: newPortForward_target)
  qed
  show ?thesis
  proof (intro conjI allI impI)
    fix s w'
    assume "NewProxyMetricsForward X Y la w api pod el = (Inr s, w')"
    then show "getEphemeralPort la w = (Inr (pf_localPort s), w')"
      by (rule any)
  qed (use found in blast)+
qed

theorem NewProxyMetricsForward_ports_witness:
  "pod_Phase scenario_pod = PodRunning
   \<and> find (\<lambda>c. container_Name c = ''web-proxy'') (pod_Containers scenario_pod)
       = Some (pod_Containers scenario_pod ! 1)
   \<and> find (\<lambda>p. port_Name p = ''admin-http'')
        (container_Ports (pod_Containers scenario_pod ! 1))
       = Some \<lparr>port_Name = ''admin-http'', port_ContainerPort = 9998\<rparr>
   \<and> NewProxyMetricsForward ''web-proxy'' ''admin-http'' (Inr (TCPAddr 40000)) scenario_net
        scenario_api scenario_pod False
       = (Inr (scenario_session 40000), \<lparr>net_listenCalls = 1, net_open = []\<rparr>)
   \<and> pf_localPort (scenario_session 40000) = 40000
   \<and> pf_remotePort (scenario_session 40000) = 9998
   \<and> NewProxyMetricsForward ''web-proxy'' ''admin-http''
        (Inl (Foreign ''listen tcp :0: bind: permission denied'')) scenario_net
        scenario_api scenario_pod False
       = (Inl (Foreign ''listen tcp :0: bind: permission denied''),
          \<lparr>net_listenCalls = 1, net_open = []\<rparr>)"
proof -
  have run: "pod_Phase scenario_pod = PodRunning"
    by (simp add: scenario_pod_def)
  have c: "find (\<lambda>c. container_Name c = ''web-proxy'') (pod_Containers scenario_pod)
             = Some (pod_Containers scenario_pod ! 1)"
    by (simp add: scenario_pod_def)
  have p: "find (\<lambda>p. port_Name p = ''admin-http'')
             (container_Ports (pod_Containers scenario_pod ! 1))
             = Some \<lparr>port_Name = ''admin-http'', port_ContainerPort = 9998\<rparr>"
    by (simp add: scenario_pod_def)
  have built: "newPortForward (Inr (TCPAddr 40000)) scenario_net scenario_api
      (pod_Namespace scenario_pod) (pod_Name scenario_pod) 0 (sint (9998 :: 32 word)) False
      = (Inr (scenario_session 40000), \<lparr>net_listenCalls = 1, net_open = []\<rparr>)"
    by (simp add: newPortForward_def Let_def scenario_listen scenario_session_def
          scenario_api_def scenario_pod_def)
  note ok = NewProxyMetricsForward_ports [of scenario_pod "''web-proxy''" "''admin-http''"
      "Inr (TCPAddr 40000)" scenario_net scenario_api False]
  note refused = NewProxyMetricsForward_ports [of scenario_pod "''web-proxy''" "''admin-http''"
      "Inl (Foreign ''listen tcp :0: bind: permission denied'')" scenario_net
      scenario_api False]
  from ok run c p have "NewProxyMetricsForward ''web-proxy'' ''admin-http''
      (Inr (TCPAddr 40000)) scenario_net scenario_api scenario_pod False
      = newPortForward (Inr (TCPAddr 40000)) scenario_net scenario_api
          (pod_Namespace scenario_pod) (pod_Name scenario_pod) 0
          (sint (port_ContainerPort \<lparr>port_Name = ''admin-http'', port_ContainerPort = 9998\<rparr>))
          False"
    by blast
  with built have one: "NewProxyMetricsForward ''web-proxy'' ''admin-http''
      (Inr (TCPAddr 40000)) scenario_net scenario_api scenario_pod False
      = (Inr (scenario_session 40000), \<lparr>net_listenCalls = 1, net_open = []\<rparr>)"
    by simp
  from refused run c p scenario_listen_refused
  have two: "NewProxyMetricsForward ''web-proxy'' ''admin-http''
      (Inl (Foreign ''listen tcp :0: bind: permission denied'')) scenario_net
      scenario_api scenario_pod False
      = (Inl (Foreign ''listen tcp :0: bind: permission denied''),
         \<lparr>net_listenCalls = 1, net_open = []\<rparr>)"
    by blast
  have ports: "pf_localPort (scenario_session 40000) = 40000"
    "pf_remotePort (scenario_session 40000) = 9998"
    by (simp_all add: scenario_session_def)
  from run c p one two ports show ?thesis
    by blast
qed

subsection \<open>Run\<close>





lemma Run_started:
  "Run (Inr (transport, upgrader)) (Inr f) (msgs, fin) pf
     = ([Call_RoundTripperFor (pf_config pf),
         Call_New \<lparr>dialer_upgrader = upgrader, dialer_transport = transport,
                   dialer_method = pf_method pf, dialer_url = pf_url pf\<rparr>
           [fmt_d (pf_localPort pf) @ '':'' @ fmt_d (pf_remotePort pf)]
           (pf_stopCh pf) (pf_readyCh pf)
           (if pf_emitLogs pf then Stdout else Discard)
           (if pf_emitLogs pf then Stderr else Discard),
         Call_ForwardPorts f]
         @ concat (map (emit (if pf_emitLogs pf then Stdout else Discard)
                             (if pf_emitLogs pf then Stderr else Discard)) msgs),
        (case fin of
           UpgradeFailed err \<Rightarrow> (Returns (Some err), pf)
         | BindFailed err \<Rightarrow> (Returns (Some err), pf)
         | Forwarded res \<Rightarrow>
             (if chan_closed (pf_readyCh pf)
              then (Panics (Panic ''close of closed channel''), pf)
              else (Returns res, pf\<lparr>pf_readyCh := (pf_readyCh pf)\<lparr>chan_closed := True\<rparr>\<rparr>))))"
  by (simp add: Run_def Let_def ForwardPorts_def close_chan_def split: fw_end.splits)

lemma Run_not_started:
  "Run (Inl err) nw fw pf = ([Call_RoundTripperFor (pf_config pf)], Returns (Some err), pf)"
  "Run (Inr (transport, upgrader)) (Inl err) fw pf
     = ([Call_RoundTripperFor (pf_config pf),
         Call_New \<lparr>dialer_upgrader = upgrader, dialer_transport = transport,
                   dialer_method = pf_method pf, dialer_url = pf_url pf\<rparr>
           [fmt_d (pf_localPort pf) @ '':'' @ fmt_d (pf_remotePort pf)]
           (pf_stopCh pf) (pf_readyCh pf)
           (if pf_emitLogs pf then Stdout else Discard)
           (if pf_emitLogs pf then Stderr else Discard)],
        Returns (Some err), pf)"
  by (simp_all add: Run_def Let_def)

text \<open>
  Claim C6. If \<^verbatim>\<open>spdy.RoundTripperFor\<close> fails, \<^verbatim>\<open>Run\<close> returns that error at
  once: it has made no other call and the session, with its ready channel, is as it
  was. If \<^verbatim>\<open>portforward.New\<close> fails, \<^verbatim>\<open>Run\<close> returns that error, the session is
  as it was and \<^verbatim>\<open>ForwardPorts\<close> was not called. If the upgrade of the connection
  fails inside \<^verbatim>\<open>ForwardPorts\<close>, or the bind of the local port after it, \<^verbatim>\<open>Run\<close>
  returns that error and the ready channel is as it was. If both succeed on a session
  whose ready channel is open, the channel is closed and \<^verbatim>\<open>Run\<close> returns what the
  forwarder loop returned. So whenever the ready channel is closed after \<^verbatim>\<open>Run\<close> and
  was open before, the round tripper and the forwarder were built and the upgrade and
  the bind both succeeded.
\<close>

theorem Run_failure_not_ready:
  "(\<forall>err. rt = Inl err
       \<longrightarrow> Run rt nw fw pf = ([Call_RoundTripperFor (pf_config pf)], Returns (Some err), pf))
   \<and> (\<forall>tu err. rt = Inr tu \<and> nw = Inl err
         \<longrightarrow> snd (Run rt nw fw pf) = (Returns (Some err), pf)
           \<and> (\<forall>f. Call_ForwardPorts f \<notin> set (fst (Run rt nw fw pf))))
   \<and> (\<forall>tu f msgs err. rt = Inr tu \<and> nw = Inr f
           \<and> (fw = (msgs, UpgradeFailed err) \<or> fw = (msgs, BindFailed err))
         \<longrightarrow> snd (Run rt nw fw pf) = (Returns (Some err), pf))
   \<and> (\<forall>tu f msgs res. rt = Inr tu \<and> nw = Inr f \<and> fw = (msgs, Forwarded res)
           \<and> \<not> chan_closed (pf_readyCh pf)
         \<longrightarrow> snd (Run rt nw fw pf)
               = (Returns res, pf\<lparr>pf_readyCh := (pf_readyCh pf)\<lparr>chan_closed := True\<rparr>\<rparr>))
   \<and> (chan_closed (pf_readyCh (snd (snd (Run rt nw fw pf)))) \<and> \<not> chan_closed (pf_readyCh pf)
        \<longrightarrow> (\<exists>tu f msgs res. rt = Inr tu \<and> nw = Inr f \<and> fw = (msgs, Forwarded res)))"
proof (intro conjI allI impI)
  fix err
  assume "rt = Inl err"
  then show "Run rt nw fw pf = ([Call_RoundTripperFor (pf_config pf)], Returns (Some err), pf)"
    by (simp add: Run_not_started)
next
  fix tu err
  assume "rt = Inr tu \<and> nw = Inl err"
  then show "snd (Run rt nw fw pf) = (Returns (Some err), pf)"
    by (cases tu) (simp add: Run_not_started)
next
  fix tu err f
  assume "rt = Inr tu \<and> nw = Inl err"
  then show "Call_ForwardPorts f \<notin> set (fst (Run rt nw fw pf))"
    by (cases tu) (simp add: Run_not_started)
next
  fix tu f msgs err
  assume "rt = Inr tu \<and> nw = Inr f
      \<and> (fw = (msgs, UpgradeFailed err) \<or> fw = (msgs, BindFailed err))"
  then show "snd (Run rt nw fw pf) = (Returns (Some err), pf)"
    by (cases tu) (auto simp add: Run_started)
next
  fix tu f msgs res
  assume "rt = Inr tu \<and> nw = Inr f \<and> fw = (msgs, Forwarded res)
      \<and> \<not> chan_closed (pf_readyCh pf)"
  then show "snd (Run rt nw fw pf)
      = (Returns res, pf\<lparr>pf_readyCh := (pf_readyCh pf)\<lparr>chan_closed := True\<rparr>\<rparr>)"
    by (cases tu) (simp add: Run_started)
next
  assume fired: "chan_closed (pf_readyCh (snd (snd (Run rt nw fw pf))))
      \<and> \<not> chan_closed (pf_readyCh pf)"
  show "\<exists>tu f msgs res. rt = Inr tu \<and> nw = Inr f \<and> fw = (msgs, Forwarded res)"
  proof (cases rt)
    case (Inl err)
    with fired show ?thesis
      by (simp add: Run_not_started)
  next
    case rt: (Inr tu)
    show ?thesis
    proof (cases nw)
      case (Inl err)
      with rt fired show ?thesis
        by (cases tu) (simp add: Run_not_started)
    next
      case nw: (Inr f)
      obtain msgs fin where fw: "fw = (msgs, fin)"
        by (cases fw)
      with rt nw fired show ?thesis
        by (cases tu; cases fin) (simp_all add: Run_started)
    qed
  qed
qed

theorem Run_failure_not_ready_witness:
  "Run (Inl (Foreign ''unable to load TLS configuration'') :: error + nat \<times> nat)
       (Inr 0 :: error + nat) ([], Forwarded None) (scenario_session 8080)
     = ([Call_RoundTripperFor ''kubeconfig''],
        Returns (Some (Foreign ''unable to load TLS configuration'')), scenario_session 8080)
   \<and> snd (Run (Inr (1, 2) :: error + nat \<times> nat)
            (Inl (Foreign ''error parsing local port'') :: error + nat) ([], Forwarded None)
            (scenario_session 8080))
       = (Returns (Some (Foreign ''error parsing local port'')), scenario_session 8080)
   \<and> snd (Run (Inr (1, 2) :: error + nat \<times> nat) (Inr 0 :: error + nat)
            ([], UpgradeFailed (Foreign ''error upgrading connection: Forbidden''))
            (scenario_session 8080))
       = (Returns (Some (Foreign ''error upgrading connection: Forbidden'')),
          scenario_session 8080)
   \<and> snd (Run (Inr (1, 2) :: error + nat \<times> nat) (Inr 0 :: error + nat)
            ([ErrOut ''Unable to listen on port 8080''],
             BindFailed (Foreign ''Unable to listen on any of the requested ports''))
            (scenario_session 8080))
       = (Returns (Some (Foreign ''Unable to listen on any of the requested ports'')),
          scenario_session 8080)
   \<and> \<not> chan_closed (pf_readyCh (scenario_session 8080))
   \<and> snd (Run (Inr (1, 2) :: error + nat \<times> nat) (Inr 0 :: error + nat) ([], Forwarded None)
            (scenario_session 8080))
       = (Returns None,
          (scenario_session 8080)\<lparr>pf_readyCh := \<lparr>chan_cap = 0, chan_closed = True\<rparr>\<rparr>)"
proof -
  have cfg: "pf_config (scenario_session 8080) = ''kubeconfig''"
    by (simp add: scenario_session_def)
  have opn: "\<not> chan_closed (pf_readyCh (scenario_session 8080))"
    by (simp add: scenario_session_def make_chan_def)
  have closed: "(pf_readyCh (scenario_session 8080))\<lparr>chan_closed := True\<rparr>
      = \<lparr>chan_cap = 0, chan_closed = True\<rparr>"
    by (simp add: scenario_session_def make_chan_def)
  note a = Run_failure_not_ready [of
      "Inl (Foreign ''unable to load TLS configuration'') :: error + nat \<times> nat"
      "Inr (0::nat)" "([], Forwarded None)" "scenario_session 8080"]
  note b = Run_failure_not_ready [of "Inr (1::nat, 2::nat)"
      "Inl (Foreign ''error parsing local port'') :: error + nat" "([], Forwarded None)"
      "scenario_session 8080"]
  note c = Run_failure_not_ready [of "Inr (1::nat, 2::nat)" "Inr (0::nat)"
      "([], UpgradeFailed (Foreign ''error upgrading connection: Forbidden''))"
      "scenario_session 8080"]
  note d = Run_failure_not_ready [of "Inr (1::nat, 2::nat)" "Inr (0::nat)"
      "([ErrOut ''Unable to listen on port 8080''],
        BindFailed (Foreign ''Unable to listen on any of the requested ports''))"
      "scenario_session 8080"]
  note e = Run_failure_not_ready [of "Inr (1::nat, 2::nat)" "Inr (0::nat)"
      "([], Forwarded None)" "scenario_session 8080"]
  from a cfg have one: "Run (Inl (Foreign ''unable to load TLS configuration'')
        :: error + nat \<times> nat) (Inr 0 :: error + nat) ([], Forwarded None)
        (scenario_session 8080)
      = ([Call_RoundTripperFor ''kubeconfig''],
         Returns (Some (Foreign ''unable to load TLS configuration'')), scenario_session 8080)"
    by simp
  from b have two: "snd (Run (Inr (1, 2) :: error + nat \<times> nat)
      (Inl (Foreign ''error parsing local port'') :: error + nat) ([], Forwarded None)
      (scenario_session 8080))
      = (Returns (Some (Foreign ''error parsing local port'')), scenario_session 8080)"
    by simp
  from c have three: "snd (Run (Inr (1, 2) :: error + nat \<times> nat) (Inr 0 :: error + nat)
      ([], UpgradeFailed (Foreign ''error upgrading connection: Forbidden''))
      (scenario_session 8080))
      = (Returns (Some (Foreign ''error upgrading connection: Forbidden'')),
         scenario_session 8080)"
    by blast
  from d have four: "snd (Run (Inr (1, 2) :: error + nat \<times> nat) (Inr 0 :: error + nat)
      ([ErrOut ''Unable to listen on port 8080''],
       BindFailed (Foreign ''Unable to listen on any of the requested ports''))
      (scenario_session 8080))
      = (Returns (Some (Foreign ''Unable to listen on any of the requested ports'')),
         scenario_session 8080)"
    by blast
  from e opn have "snd (Run (Inr (1, 2) :: error + nat \<times> nat) (Inr 0 :: error + nat)
      ([], Forwarded None) (scenario_session 8080))
      = (Returns None,
         (scenario_session 8080)\<lparr>pf_readyCh :=
            (pf_readyCh (scenario_session 8080))\<lparr>chan_closed := True\<rparr>\<rparr>)"
    by blast
  with closed have five: "snd (Run (Inr (1, 2) :: error + nat \<times> nat) (Inr 0 :: error + nat)
      ([], Forwarded None) (scenario_session 8080))
      = (Returns None,
         (scenario_session 8080)\<lparr>pf_readyCh := \<lparr>chan_cap = 0, chan_closed = True\<rparr>\<rparr>)"
    by simp
  from one two three four opn five show ?thesis
    by blast
qed




end
